theory Spec2Isabelle
  imports Complex_Main
begin

section \<open>Python values and exceptions\<close>

text \<open>
  The client of \<^verbatim>\<open>examples/python-async-client.py\<close> builds dictionaries that are
  serialised as JSON, and walks dictionaries and lists decoded from JSON. Both are values
  of \<open>pyval\<close>. A dictionary is an association list in insertion order, read with
  \<open>map_of\<close>; every key is a \<open>str\<close>, as in a decoded JSON object. The client never
  computes with a float (it copies \<open>temperature\<close> into the payload), so the carrier
  \<open>'f\<close> of floats is left open.
\<close>

datatype 'f pyval =
    PNone
  | PBool bool
  | PInt int
  | PFloat 'f
  | PStr string
  | PList "'f pyval list"
  | PDict "(string \<times> 'f pyval) list"

text \<open>A subscript: \<open>v['name']\<close> or \<open>v[0]\<close>.\<close>

datatype pykey = KStr string | KInt int

text \<open>
  The exceptions that can leave the client. \<open>ValueError\<close> and \<open>RuntimeError\<close> are the
  two classes the client raises itself, with their message. \<open>KeyError\<close>, \<open>IndexError\<close>
  and \<open>TypeError\<close> are raised by a subscript; the text of a \<open>TypeError\<close> differs between
  interpreter versions and is not modelled. \<open>LibraryError\<close> is an exception raised inside
  the HTTP library (\<open>aiohttp\<close>, \<open>asyncio\<close>, the JSON decoder), under the name of its class:
  the client has no handler around the calls into the library, so such an exception leaves
  \<open>chat\<close> as it is.
\<close>

datatype exn =
    ValueError string
  | RuntimeError string
  | KeyError pykey
  | IndexError string
  | TypeError
  | LibraryError string

subsection \<open>Formatting\<close>

text \<open>\<open>str(n)\<close> of an integer, as an f-string prints it.\<close>

fun str_nat :: "nat \<Rightarrow> string" where
  "str_nat n =
     (if n < 10 then [''0123456789'' ! n]
      else str_nat (n div 10) @ [''0123456789'' ! (n mod 10)])"

declare str_nat.simps [simp del]

definition str_int :: "int \<Rightarrow> string" where
  "str_int i = (if i < 0 then CHR ''-'' # str_nat (nat (- i)) else str_nat (nat i))"

text \<open>
  \<open>str(e)\<close> of a \<open>KeyError\<close> is the \<open>repr\<close> of the key: an integer in decimal, a string
  between apostrophes. (The keys the client looks up are literals without apostrophes or
  escapes, for which this is the whole of \<open>repr\<close>.)
\<close>

fun str_key :: "pykey \<Rightarrow> string" where
  "str_key (KStr k) = [CHR 0x27] @ k @ [CHR 0x27]"
| "str_key (KInt i) = str_int i"

subsection \<open>Subscripts\<close>

text \<open>
  \<open>v[k]\<close>. A dictionary raises \<open>KeyError\<close> for a key it does not hold (its keys are
  strings, so it holds no integer); a list or a string raises \<open>IndexError\<close> for an index
  out of range, negative indices counting from the end, and \<open>TypeError\<close> for a string
  subscript; \<open>None\<close>, booleans and numbers have no subscript at all.
\<close>

fun getitem :: "'f pyval \<Rightarrow> pykey \<Rightarrow> exn + 'f pyval" where
  "getitem (PDict d) (KStr k) =
     (case map_of d k of Some v \<Rightarrow> Inr v | None \<Rightarrow> Inl (KeyError (KStr k)))"
| "getitem (PDict d) (KInt i) = Inl (KeyError (KInt i))"
| "getitem (PList xs) (KInt i) =
     (let n = int (length xs) in
      if - n \<le> i \<and> i < n then Inr (xs ! nat (if i < 0 then i + n else i))
      else Inl (IndexError ''list index out of range''))"
| "getitem (PList xs) (KStr k) = Inl TypeError"
| "getitem (PStr s) (KInt i) =
     (let n = int (length s) in
      if - n \<le> i \<and> i < n then Inr (PStr [s ! nat (if i < 0 then i + n else i)])
      else Inl (IndexError ''string index out of range''))"
| "getitem (PStr s) (KStr k) = Inl TypeError"
| "getitem PNone k = Inl TypeError"
| "getitem (PBool b) k = Inl TypeError"
| "getitem (PInt n) k = Inl TypeError"
| "getitem (PFloat x) k = Inl TypeError"

text \<open>A chain of subscripts \<open>v[k1][k2]...\<close>, evaluated left to right; the first failure ends it.\<close>

fun navigate :: "'f pyval \<Rightarrow> pykey list \<Rightarrow> exn + 'f pyval" where
  "navigate v [] = Inr v"
| "navigate v (k # ks) = (case getitem v k of Inl e \<Rightarrow> Inl e | Inr w \<Rightarrow> navigate w ks)"

text \<open>\<open>d[k] = v\<close> on a dictionary: an existing key keeps its place, a new one is appended.\<close>

fun dict_set :: "(string \<times> 'v) list \<Rightarrow> string \<Rightarrow> 'v \<Rightarrow> (string \<times> 'v) list" where
  "dict_set [] k v = [(k, v)]"
| "dict_set ((k', v') # d) k v = (if k' = k then (k, v) # d else (k', v') # dict_set d k v)"

section \<open>The client\<close>

record ProviderConfig =
  url :: string
  key :: string
  header :: string
  prefix :: string
  version_header :: "string option"

record UniversalAIClient =
  config :: "(string \<times> ProviderConfig) list"

subsection \<open>Construction\<close>

text \<open>
  The process environment is a partial map from names to values. \<open>os.getenv(name, default)\<close>
  is a read of the environment: the model returns the value together with the log of the
  names read so far.
\<close>

type_synonym environ = "string \<rightharpoonup> string"

definition getenv :: "environ \<Rightarrow> string \<Rightarrow> string \<Rightarrow> string list \<Rightarrow> string \<times> string list" where
  "getenv env name dflt reads =
     ((case env name of Some v \<Rightarrow> v | None \<Rightarrow> dflt), reads @ [name])"

text \<open>The loop of \<open>_validate_config\<close> over \<open>self.config.items()\<close>, in insertion order.\<close>

fun validate_items :: "(string \<times> ProviderConfig) list \<Rightarrow> exn + unit" where
  "validate_items [] = Inr ()"
| "validate_items ((provider, cfg) # rest) =
     (if key cfg = '''' then Inl (ValueError (''Missing API key for '' @ provider))
      else validate_items rest)"

definition validate_config :: "UniversalAIClient \<Rightarrow> exn + unit" where
  "validate_config self = validate_items (config self)"

text \<open>\<open>__init__\<close>: the result, and the names of the environment variables it read.\<close>

definition init :: "environ \<Rightarrow> (exn + UniversalAIClient) \<times> string list" where
  "init env =
     (let (openai_key, r1) = getenv env ''OPENAI_API_KEY'' '''' [];
          (claude_key, r2) = getenv env ''ANTHROPIC_API_KEY'' '''' r1;
          (gemini_key, r3) = getenv env ''GOOGLE_API_KEY'' '''' r2;
          self = \<lparr>config =
            [(''openai'', \<lparr>url = ''https://api.openai.com/v1/chat/completions'',
                          key = openai_key,
                          header = ''Authorization'',
                          prefix = ''Bearer '',
                          version_header = None\<rparr>),
             (''claude'', \<lparr>url = ''https://api.anthropic.com/v1/messages'',
                          key = claude_key,
                          header = ''x-api-key'',
                          prefix = '''',
                          version_header = Some ''2023-06-01''\<rparr>),
             (''gemini'', \<lparr>url = ''https://generativelanguage.googleapis.com/v1beta/models/gemini-1.5-pro:generateContent'',
                          key = gemini_key,
                          header = '''',
                          prefix = '''',
                          version_header = None\<rparr>)]\<rparr>
      in (case validate_config self of Inl e \<Rightarrow> Inl e | Inr u \<Rightarrow> Inr self, r3))"

subsection \<open>Headers, payload, extraction\<close>

definition build_headers :: "string \<Rightarrow> ProviderConfig \<Rightarrow> (string \<times> 'f pyval) list" where
  "build_headers provider cfg =
     (let headers = [(''Content-Type'', PStr ''application/json'')] in
      if provider = ''openai'' then
        dict_set headers (header cfg) (PStr (prefix cfg @ key cfg))
      else if provider = ''claude'' then
        dict_set (dict_set headers (header cfg) (PStr (key cfg)))
          ''anthropic-version''
          (case version_header cfg of None \<Rightarrow> PNone | Some v \<Rightarrow> PStr v)
      else headers)"

text \<open>
  \<open>model or default\<close>: the default stands in for every falsy \<open>model\<close>, that is for
  \<open>None\<close> and for the empty string.
\<close>

definition model_or :: "string option \<Rightarrow> string \<Rightarrow> string" where
  "model_or model dflt =
     (case model of None \<Rightarrow> dflt | Some m \<Rightarrow> if m = '''' then dflt else m)"

definition build_payload ::
  "string \<Rightarrow> string \<Rightarrow> string option \<Rightarrow> int \<Rightarrow> 'f \<Rightarrow> exn + 'f pyval" where
  "build_payload provider prompt model max_tokens temperature =
     (if provider = ''openai'' then
        Inr (PDict
          [(''model'', PStr (model_or model ''gpt-4o'')),
           (''messages'', PList [PDict [(''role'', PStr ''user''), (''content'', PStr prompt)]]),
           (''max_tokens'', PInt max_tokens),
           (''temperature'', PFloat temperature)])
      else if provider = ''claude'' then
        Inr (PDict
          [(''model'', PStr (model_or model ''claude-3-5-sonnet-20241022'')),
           (''max_tokens'', PInt max_tokens),
           (''messages'', PList [PDict [(''role'', PStr ''user''), (''content'', PStr prompt)]]),
           (''temperature'', PFloat temperature)])
      else if provider = ''gemini'' then
        Inr (PDict
          [(''contents'', PList [PDict [(''parts'', PList [PDict [(''text'', PStr prompt)]])]]),
           (''generationConfig'', PDict
              [(''temperature'', PFloat temperature),
               (''maxOutputTokens'', PInt max_tokens)])])
      else Inl (ValueError (''Unknown provider: '' @ provider)))"

text \<open>
  The handler \<open>except (KeyError, IndexError) as e\<close> of \<open>_extract_response\<close>: these two
  become a \<open>RuntimeError\<close> whose message ends with \<open>str(e)\<close>; anything else passes.
\<close>

fun except_lookup :: "string \<Rightarrow> exn + 'a \<Rightarrow> exn + 'a" where
  "except_lookup provider (Inl (KeyError k)) =
     Inl (RuntimeError (''Invalid '' @ provider @ '' response format: '' @ str_key k))"
| "except_lookup provider (Inl (IndexError m)) =
     Inl (RuntimeError (''Invalid '' @ provider @ '' response format: '' @ m))"
| "except_lookup provider r = r"

definition extract_response :: "string \<Rightarrow> 'f pyval \<Rightarrow> exn + 'f pyval" where
  "extract_response provider data =
     (if provider = ''openai'' then
        except_lookup provider
          (navigate data [KStr ''choices'', KInt 0, KStr ''message'', KStr ''content''])
      else if provider = ''claude'' then
        except_lookup provider (navigate data [KStr ''content'', KInt 0, KStr ''text''])
      else if provider = ''gemini'' then
        except_lookup provider
          (navigate data
             [KStr ''candidates'', KInt 0, KStr ''content'', KStr ''parts'', KInt 0, KStr ''text''])
      else Inl (ValueError (''Unknown provider: '' @ provider)))"

subsection \<open>The call\<close>

text \<open>
  The network is outside the program. A request is what \<open>session.post\<close> is given; the
  transport answers it with a response or raises an exception of the library (a timeout,
  a failed connection). Of a response the client reads the status, and then either the
  body as text or the body decoded from JSON; each read may raise in the library too.
  Where the library raises, the outcome is \<open>Inl\<close> of the name of the exception's class.
  \<open>chat\<close> returns its result together with what it did on the network, in order.
\<close>

record 'f request =
  req_url :: string
  req_headers :: "(string \<times> 'f pyval) list"
  req_json :: "'f pyval"
  req_timeout :: int

record 'f response =
  resp_status :: int
  resp_text :: "string + string"
  resp_json :: "string + 'f pyval"

datatype 'f net_event = SessionOpened | Post "'f request" | SessionClosed

fun requests :: "'f net_event list \<Rightarrow> 'f request list" where
  "requests [] = []"
| "requests (Post r # es) = r # requests es"
| "requests (e # es) = requests es"

definition chat ::
  "UniversalAIClient \<Rightarrow> ('f request \<Rightarrow> string + 'f response) \<Rightarrow>
   string \<Rightarrow> string \<Rightarrow> string option \<Rightarrow> int \<Rightarrow> 'f \<Rightarrow>
   (exn + 'f pyval) \<times> 'f net_event list" where
  "chat self post provider prompt model max_tokens temperature =
     (case map_of (config self) provider of
        None \<Rightarrow> (Inl (ValueError (''Unknown provider: '' @ provider)), [])
      | Some cfg \<Rightarrow>
          (let headers = build_headers provider cfg in
           case build_payload provider prompt model max_tokens temperature of
             Inl e \<Rightarrow> (Inl e, [SessionOpened, SessionClosed])
           | Inr payload \<Rightarrow>
               (let full_url =
                      (if provider = ''gemini'' then url cfg @ ''?key='' @ key cfg else url cfg);
                    req = \<lparr>req_url = full_url, req_headers = headers,
                           req_json = payload, req_timeout = 30\<rparr>;
                    events = [SessionOpened, Post req, SessionClosed]
                in case post req of
                     Inl cls \<Rightarrow> (Inl (LibraryError cls), events)
                   | Inr resp \<Rightarrow>
                       if resp_status resp \<noteq> 200 then
                         (case resp_text resp of
                            Inl cls \<Rightarrow> (Inl (LibraryError cls), events)
                          | Inr error_text \<Rightarrow>
                              (Inl (RuntimeError
                                 (provider @ '' API error: HTTP '' @ str_int (resp_status resp)
                                    @ '' - '' @ error_text)), events))
                       else
                         (case resp_json resp of
                            Inl cls \<Rightarrow> (Inl (LibraryError cls), events)
                          | Inr data \<Rightarrow> (extract_response provider data, events)))))"

section \<open>The documented behaviour\<close>

text \<open>
  What the specification says of the client, written from its words and independent of
  the code above: the field path of each provider's reply, the outcome of following such
  a path through a decoded JSON value, the payload of each provider, and the four kinds
  of error.
\<close>

text \<open>A step of a field path: the field of an object, or the element of an array.\<close>

datatype step = Field string | Index nat

fun key_of :: "step \<Rightarrow> pykey" where
  "key_of (Field k) = KStr k"
| "key_of (Index n) = KInt (int n)"

text \<open>
  The fixed field paths: \<open>choices[0].message.content\<close> for openai, \<open>content[0].text\<close>
  for claude, \<open>candidates[0].content.parts[0].text\<close> for gemini.
\<close>

definition documented_path :: "string \<Rightarrow> step list" where
  "documented_path provider =
     (if provider = ''openai'' then
        [Field ''choices'', Index 0, Field ''message'', Field ''content'']
      else if provider = ''claude'' then [Field ''content'', Index 0, Field ''text'']
      else if provider = ''gemini'' then
        [Field ''candidates'', Index 0, Field ''content'', Field ''parts'', Index 0, Field ''text'']
      else [])"

text \<open>
  Following a path through a JSON value: a field is read from an object and an element
  from an array. The walk ends with the value found, at the first field that is missing
  or index that is out of range, or at the first value that is neither the object nor the
  array the step asks for.
\<close>

datatype 'f lookup = Found "'f pyval" | Missing step | WrongType "'f pyval" step

fun follow_path :: "'f pyval \<Rightarrow> step list \<Rightarrow> 'f lookup" where
  "follow_path v [] = Found v"
| "follow_path (PDict d) (Field k # ks) =
     (case map_of d k of None \<Rightarrow> Missing (Field k) | Some w \<Rightarrow> follow_path w ks)"
| "follow_path (PList xs) (Index n # ks) =
     (if n < length xs then follow_path (xs ! n) ks else Missing (Index n))"
| "follow_path v (st # ks) = WrongType v st"

text \<open>
  On each documented path an index is followed by a field: the element of the array is an
  object, never the reply itself.
\<close>

fun index_then_field :: "step list \<Rightarrow> bool" where
  "index_then_field [] = True"
| "index_then_field (Field k # ks) = index_then_field ks"
| "index_then_field (Index n # Field k # ks) = index_then_field ks"
| "index_then_field (Index n # ks) = False"

text \<open>The lookup failure as the error message names it.\<close>

fun lookup_failure_text :: "step \<Rightarrow> string" where
  "lookup_failure_text (Field k) = [CHR 0x27] @ k @ [CHR 0x27]"
| "lookup_failure_text (Index n) = ''list index out of range''"

text \<open>
  The payload as the specification writes it, with \<open>model ?? default\<close>: the default
  stands in for an absent \<open>model\<close> only.
\<close>

definition documented_payload ::
  "string \<Rightarrow> string \<Rightarrow> string option \<Rightarrow> int \<Rightarrow> 'f \<Rightarrow> 'f pyval" where
  "documented_payload provider prompt model max_tokens temperature =
     (if provider = ''openai'' then
        PDict
          [(''model'', PStr (case model of None \<Rightarrow> ''gpt-4o'' | Some m \<Rightarrow> m)),
           (''messages'', PList [PDict [(''role'', PStr ''user''), (''content'', PStr prompt)]]),
           (''max_tokens'', PInt max_tokens),
           (''temperature'', PFloat temperature)]
      else if provider = ''claude'' then
        PDict
          [(''model'', PStr (case model of None \<Rightarrow> ''claude-3-5-sonnet-20241022'' | Some m \<Rightarrow> m)),
           (''max_tokens'', PInt max_tokens),
           (''messages'', PList [PDict [(''role'', PStr ''user''), (''content'', PStr prompt)]]),
           (''temperature'', PFloat temperature)]
      else
        PDict
          [(''contents'', PList [PDict [(''parts'', PList [PDict [(''text'', PStr prompt)]])]]),
           (''generationConfig'', PDict
              [(''temperature'', PFloat temperature),
               (''maxOutputTokens'', PInt max_tokens)])])"

text \<open>
  The four kinds of error, and how a caller reads the kind off a raised exception: the
  client raises two classes only, so the kind is the class together with the fixed text
  its message starts with. An exception of any other class is none of the four.
\<close>

datatype error_kind =
  ConfigurationError | UnknownProviderError | ApiError | MalformedResponseError

definition starts_with :: "string \<Rightarrow> string \<Rightarrow> bool" where
  "starts_with s p = (take (length p) s = p)"

fun error_kind_of :: "exn \<Rightarrow> error_kind option" where
  "error_kind_of (ValueError m) =
     (if starts_with m ''Missing API key for '' then Some ConfigurationError
      else if starts_with m ''Unknown provider: '' then Some UnknownProviderError
      else None)"
| "error_kind_of (RuntimeError m) =
     (if starts_with m ''Invalid '' then Some MalformedResponseError
      else if starts_with m ''openai API error: HTTP ''
           \<or> starts_with m ''claude API error: HTTP ''
           \<or> starts_with m ''gemini API error: HTTP '' then Some ApiError
      else None)"
| "error_kind_of e = None"

section \<open>Properties\<close>

subsection \<open>Construction and the shape of a call\<close>

text \<open>A client that was constructed holds the three fixed entries, each with a credential.\<close>

lemma init_Inr:
  assumes "fst (init env) = Inr c"
  shows "\<exists>ko ka kg. env ''OPENAI_API_KEY'' = Some ko \<and> ko \<noteq> '''' \<and>
           env ''ANTHROPIC_API_KEY'' = Some ka \<and> ka \<noteq> '''' \<and>
           env ''GOOGLE_API_KEY'' = Some kg \<and> kg \<noteq> '''' \<and>
           config c =
            [(''openai'', \<lparr>url = ''https://api.openai.com/v1/chat/completions'',
                          key = ko, header = ''Authorization'', prefix = ''Bearer '',
                          version_header = None\<rparr>),
             (''claude'', \<lparr>url = ''https://api.anthropic.com/v1/messages'',
                          key = ka, header = ''x-api-key'', prefix = '''',
                          version_header = Some ''2023-06-01''\<rparr>),
             (''gemini'', \<lparr>url = ''https://generativelanguage.googleapis.com/v1beta/models/gemini-1.5-pro:generateContent'',
                          key = kg, header = '''', prefix = '''',
                          version_header = None\<rparr>)]"
  using assms
  by (auto simp: init_def getenv_def validate_config_def Let_def split: option.splits if_splits)


lemma init_supported:
  assumes "fst (init env) = Inr c" and "provider \<in> {''openai'', ''claude'', ''gemini''}"
  shows "\<exists>cfg. map_of (config c) provider = Some cfg"
  using init_Inr [OF assms(1)] assms(2) by auto


lemma init_lookup:
  assumes "fst (init env) = Inr c"
    and "env ''OPENAI_API_KEY'' = Some ko"
    and "env ''ANTHROPIC_API_KEY'' = Some ka"
    and "env ''GOOGLE_API_KEY'' = Some kg"
  shows "map_of (config c) ''openai'' =
      Some \<lparr>url = ''https://api.openai.com/v1/chat/completions'',
            key = ko, header = ''Authorization'', prefix = ''Bearer '',
            version_header = None\<rparr>"
    and "map_of (config c) ''claude'' =
      Some \<lparr>url = ''https://api.anthropic.com/v1/messages'',
            key = ka, header = ''x-api-key'', prefix = '''',
            version_header = Some ''2023-06-01''\<rparr>"
    and "map_of (config c) ''gemini'' =
      Some \<lparr>url = ''https://generativelanguage.googleapis.com/v1beta/models/gemini-1.5-pro:generateContent'',
            key = kg, header = '''', prefix = '''',
            version_header = None\<rparr>"
  using init_Inr [OF assms(1)] assms(2-4) by auto

text \<open>The payload of a supported provider, with an empty \<open>model\<close> read as an absent one.\<close>

lemma model_or_case:
  "model_or model d =
     (case if model = Some '''' then None else model of None \<Rightarrow> d | Some m \<Rightarrow> m)"
  by (simp add: model_or_def split: option.splits)

lemma build_payload_documented:
  "provider \<in> {''openai'', ''claude'', ''gemini''} \<Longrightarrow>
   build_payload provider prompt model mt t =
     Inr (documented_payload provider prompt (if model = Some '''' then None else model) mt t)"
  by (auto simp: build_payload_def documented_payload_def model_or_case)

text \<open>
  A call for a configured provider opens a session, posts one request and closes the
  session; its result is decided by what the transport answers to that request.
\<close>

lemma chat_known:
  assumes "map_of (config self) provider = Some cfg"
    and "build_payload provider prompt model mt t = Inr payload"
  shows "snd (chat self post provider prompt model mt t) =
     [SessionOpened,
      Post \<lparr>req_url = (if provider = ''gemini'' then url cfg @ ''?key='' @ key cfg else url cfg),
            req_headers = build_headers provider cfg, req_json = payload, req_timeout = 30\<rparr>,
      SessionClosed]"
  using assms by (simp add: chat_def Let_def split: sum.splits)

lemma chat_known_result:
  assumes "map_of (config self) provider = Some cfg"
    and "build_payload provider prompt model mt t = Inr payload"
  shows "fst (chat self post provider prompt model mt t) =
     (case post \<lparr>req_url = (if provider = ''gemini'' then url cfg @ ''?key='' @ key cfg else url cfg),
            req_headers = build_headers provider cfg, req_json = payload, req_timeout = 30\<rparr> of
        Inl cls \<Rightarrow> Inl (LibraryError cls)
      | Inr resp \<Rightarrow>
          if resp_status resp \<noteq> 200 then
            (case resp_text resp of
               Inl cls \<Rightarrow> Inl (LibraryError cls)
             | Inr txt \<Rightarrow> Inl (RuntimeError (provider @ '' API error: HTTP ''
                  @ str_int (resp_status resp) @ '' - '' @ txt)))
          else
            (case resp_json resp of
               Inl cls \<Rightarrow> Inl (LibraryError cls)
             | Inr data \<Rightarrow> extract_response provider data))"
  using assms by (simp add: chat_def Let_def split: sum.splits)

lemma chat_posts_once:
  assumes "fst (init env) = Inr c" and "provider \<in> {''openai'', ''claude'', ''gemini''}"
  shows "\<exists>req. snd (chat c post provider prompt model mt t) = [SessionOpened, Post req, SessionClosed]"
proof -
  from init_supported [OF assms] obtain cfg where cfg: "map_of (config c) provider = Some cfg"
    by blast
  show ?thesis
    by (simp add: chat_known [OF cfg build_payload_documented [OF assms(2)]])
qed

lemma chat_answered:
  assumes "fst (init env) = Inr c" and "provider \<in> {''openai'', ''claude'', ''gemini''}"
    and "map post (requests (snd (chat c post provider prompt model mt t))) = [r]"
  shows "fst (chat c post provider prompt model mt t) =
     (case r of
        Inl cls \<Rightarrow> Inl (LibraryError cls)
      | Inr resp \<Rightarrow>
          if resp_status resp \<noteq> 200 then
            (case resp_text resp of
               Inl cls \<Rightarrow> Inl (LibraryError cls)
             | Inr txt \<Rightarrow> Inl (RuntimeError (provider @ '' API error: HTTP ''
                  @ str_int (resp_status resp) @ '' - '' @ txt)))
          else
            (case resp_json resp of
               Inl cls \<Rightarrow> Inl (LibraryError cls)
             | Inr data \<Rightarrow> extract_response provider data))"
proof -
  from init_supported [OF assms(1,2)] obtain cfg where cfg: "map_of (config c) provider = Some cfg"
    by blast
  note p = build_payload_documented [OF assms(2)]
  from assms(3) show ?thesis
    by (simp add: chat_known [OF cfg p] chat_known_result [OF cfg p])
qed

lemma chat_requests:
  assumes "fst (init env) = Inr c"
    and "env ''OPENAI_API_KEY'' = Some ko"
    and "env ''ANTHROPIC_API_KEY'' = Some ka"
    and "env ''GOOGLE_API_KEY'' = Some kg"
  shows "requests (snd (chat c post ''openai'' prompt model mt t)) =
      [\<lparr>req_url = ''https://api.openai.com/v1/chat/completions'',
        req_headers = [(''Content-Type'', PStr ''application/json''),
                       (''Authorization'', PStr (''Bearer '' @ ko))],
        req_json = documented_payload ''openai'' prompt (if model = Some '''' then None else model) mt t,
        req_timeout = 30\<rparr>]"
    and "requests (snd (chat c post ''claude'' prompt model mt t)) =
      [\<lparr>req_url = ''https://api.anthropic.com/v1/messages'',
        req_headers = [(''Content-Type'', PStr ''application/json''),
                       (''x-api-key'', PStr ka),
                       (''anthropic-version'', PStr ''2023-06-01'')],
        req_json = documented_payload ''claude'' prompt (if model = Some '''' then None else model) mt t,
        req_timeout = 30\<rparr>]"
    and "requests (snd (chat c post ''gemini'' prompt model mt t)) =
      [\<lparr>req_url = ''https://generativelanguage.googleapis.com/v1beta/models/gemini-1.5-pro:generateContent''
                   @ ''?key='' @ kg,
        req_headers = [(''Content-Type'', PStr ''application/json'')],
        req_json = documented_payload ''gemini'' prompt (if model = Some '''' then None else model) mt t,
        req_timeout = 30\<rparr>]"
proof -
  note l = init_lookup [OF assms]
  show "requests (snd (chat c post ''openai'' prompt model mt t)) =
      [\<lparr>req_url = ''https://api.openai.com/v1/chat/completions'',
        req_headers = [(''Content-Type'', PStr ''application/json''),
                       (''Authorization'', PStr (''Bearer '' @ ko))],
        req_json = documented_payload ''openai'' prompt (if model = Some '''' then None else model) mt t,
        req_timeout = 30\<rparr>]"
    by (simp add: chat_known [OF l(1) build_payload_documented] build_headers_def)
  show "requests (snd (chat c post ''claude'' prompt model mt t)) =
      [\<lparr>req_url = ''https://api.anthropic.com/v1/messages'',
        req_headers = [(''Content-Type'', PStr ''application/json''),
                       (''x-api-key'', PStr ka),
                       (''anthropic-version'', PStr ''2023-06-01'')],
        req_json = documented_payload ''claude'' prompt (if model = Some '''' then None else model) mt t,
        req_timeout = 30\<rparr>]"
    by (simp add: chat_known [OF l(2) build_payload_documented] build_headers_def)
  show "requests (snd (chat c post ''gemini'' prompt model mt t)) =
      [\<lparr>req_url = ''https://generativelanguage.googleapis.com/v1beta/models/gemini-1.5-pro:generateContent''
                   @ ''?key='' @ kg,
        req_headers = [(''Content-Type'', PStr ''application/json'')],
        req_json = documented_payload ''gemini'' prompt (if model = Some '''' then None else model) mt t,
        req_timeout = 30\<rparr>]"
    by (simp add: chat_known [OF l(3) build_payload_documented] build_headers_def)
qed

text \<open>An environment with all three credentials, for the examples below.\<close>

lemma init_example:
  "\<exists>c. fst (init [''OPENAI_API_KEY'' \<mapsto> ''sk-o'', ''ANTHROPIC_API_KEY'' \<mapsto> ''sk-a'',
                   ''GOOGLE_API_KEY'' \<mapsto> ''sk-g'']) = Inr c"
  by (simp add: init_def getenv_def validate_config_def)

lemma extract_response_path:
  "provider \<in> {''openai'', ''claude'', ''gemini''} \<Longrightarrow>
   extract_response provider data =
     except_lookup provider (navigate data (map key_of (documented_path provider)))"
  by (auto simp: extract_response_def documented_path_def)

lemma navigate_found:
  "follow_path v ks = Found w \<Longrightarrow> navigate v (map key_of ks) = Inr w"
  by (induction v ks rule: follow_path.induct) (auto split: option.splits if_splits)

lemma navigate_missing:
  "follow_path v ks = Missing st \<Longrightarrow>
   navigate v (map key_of ks) =
     Inl (case st of Field k \<Rightarrow> KeyError (KStr k)
          | Index n \<Rightarrow> IndexError ''list index out of range'')"
  by (induction v ks rule: follow_path.induct) (auto split: option.splits if_splits)

subsection \<open>Walking the reply, and the kind of an error\<close>

lemma documented_path_shape: "index_then_field (documented_path provider)"
  by (simp add: documented_path_def)

lemma navigate_wrong:
  "follow_path v ks = WrongType w st \<Longrightarrow> index_then_field ks \<Longrightarrow>
   navigate v (map key_of ks) =
     (case w of
        PDict d \<Rightarrow> Inl (KeyError (key_of st))
      | PStr s \<Rightarrow>
          (case st of
             Index n \<Rightarrow> if n < length s then Inl TypeError
                        else Inl (IndexError ''string index out of range'')
           | Field k \<Rightarrow> Inl TypeError)
      | _ \<Rightarrow> Inl TypeError)"
proof (induction v ks rule: follow_path.induct)
  case (1 v)
  then show ?case by simp
next
  case (2 d k ks)
  then show ?case by (auto split: option.splits)
next
  case (3 xs n ks)
  then show ?case
    by (cases ks rule: index_then_field.cases) (auto split: if_splits)
qed (auto elim: index_then_field.elims)

lemma navigate_errors:
  "navigate v ks = Inl e \<Longrightarrow> e = TypeError \<or> (\<exists>k. e = KeyError k) \<or> (\<exists>m. e = IndexError m)"
proof (induction ks arbitrary: v)
  case Nil
  then show ?case by simp
next
  case (Cons k ks)
  show ?case
  proof (cases "getitem v k")
    case (Inl e')
    with Cons.prems have "e = e'" by simp
    with Inl show ?thesis
      by (cases v; cases k) (auto simp: Let_def split: option.splits if_splits)
  next
    case (Inr w)
    with Cons show ?thesis by simp
  qed
qed

lemma kind_malformed:
  "error_kind_of (RuntimeError (''Invalid '' @ m)) = Some MalformedResponseError"
  by (simp add: starts_with_def)

lemma kind_api:
  "provider \<in> {''openai'', ''claude'', ''gemini''} \<Longrightarrow>
   error_kind_of (RuntimeError (provider @ '' API error: HTTP '' @ m)) = Some ApiError"
  by (auto simp: starts_with_def)


lemma extract_response_kind:
  assumes "provider \<in> {''openai'', ''claude'', ''gemini''}"
    and "extract_response provider data = Inl e"
  shows "error_kind_of e =
     (case navigate data (map key_of (documented_path provider)) of
        Inl (KeyError k) \<Rightarrow> Some MalformedResponseError
      | Inl (IndexError m) \<Rightarrow> Some MalformedResponseError
      | _ \<Rightarrow> None)"
proof (cases "navigate data (map key_of (documented_path provider))")
  case (Inl e')
  from navigate_errors [OF Inl] consider "e' = TypeError" | k where "e' = KeyError k"
    | m where "e' = IndexError m"
    by blast
  then show ?thesis
  proof cases
    case 1
    with Inl assms(2) have "e = TypeError"
      by (simp add: extract_response_path [OF assms(1)])
    with Inl 1 show ?thesis by simp
  next
    case 2
    with Inl assms(2)
    have "e = RuntimeError (''Invalid '' @ (provider @ '' response format: '' @ str_key k))"
      by (simp add: extract_response_path [OF assms(1)])
    then have "error_kind_of e = Some MalformedResponseError"
      by (simp only: kind_malformed)
    with Inl 2 show ?thesis by simp
  next
    case 3
    with Inl assms(2)
    have "e = RuntimeError (''Invalid '' @ (provider @ '' response format: '' @ m))"
      by (simp add: extract_response_path [OF assms(1)])
    then have "error_kind_of e = Some MalformedResponseError"
      by (simp only: kind_malformed)
    with Inl 3 show ?thesis by simp
  qed
next
  case (Inr v)
  with assms(2) show ?thesis
    by (simp add: extract_response_path [OF assms(1)])
qed


lemma chat_error_kind:
  assumes "fst (init env) = Inr c" and "provider \<in> {''openai'', ''claude'', ''gemini''}"
    and "map post (requests (snd (chat c post provider prompt model mt t))) = [r]"
    and "fst (chat c post provider prompt model mt t) = Inl e"
  shows "error_kind_of e =
     (case r of
        Inl cls \<Rightarrow> None
      | Inr resp \<Rightarrow>
          if resp_status resp \<noteq> 200 then
            (case resp_text resp of Inl cls \<Rightarrow> None | Inr txt \<Rightarrow> Some ApiError)
          else
            (case resp_json resp of
               Inl cls \<Rightarrow> None
             | Inr data \<Rightarrow>
                 (case navigate data (map key_of (documented_path provider)) of
                    Inl (KeyError k) \<Rightarrow> Some MalformedResponseError
                  | Inl (IndexError m) \<Rightarrow> Some MalformedResponseError
                  | _ \<Rightarrow> None)))"
proof -
  note res = chat_answered [OF assms(1-3)]
  show ?thesis
  proof (cases r)
    case (Inl cls)
    with res assms(4) have "e = LibraryError cls" by simp
    with Inl show ?thesis by simp
  next
    case r: (Inr resp)
    show ?thesis
    proof (cases "resp_status resp = 200")
      case False
      show ?thesis
      proof (cases "resp_text resp")
        case (Inl cls)
        with res assms(4) r False have "e = LibraryError cls" by simp
        with r False Inl show ?thesis by simp
      next
        case (Inr body)
        with res assms(4) r False
        have "e = RuntimeError (provider @ '' API error: HTTP ''
                  @ (str_int (resp_status resp) @ '' - '' @ body))"
          by simp
        then have "error_kind_of e = Some ApiError"
          by (simp only: kind_api [OF assms(2)])
        with r False Inr show ?thesis by simp
      qed
    next
      case True
      show ?thesis
      proof (cases "resp_json resp")
        case (Inl cls)
        with res assms(4) r True have "e = LibraryError cls" by simp
        with r True Inl show ?thesis by simp
      next
        case (Inr data)
        with res assms(4) r True have "extract_response provider data = Inl e" by simp
        from extract_response_kind [OF assms(2) this] r True Inr show ?thesis by simp
      qed
    qed
  qed
qed

subsection \<open>A transport with one answer\<close>

text \<open>A transport that gives the same answer to every request, as a mock does.\<close>

lemma constant_transport:
  assumes "fst (init env) = Inr c" and "provider \<in> {''openai'', ''claude'', ''gemini''}"
  shows "map (\<lambda>r. a) (requests (snd (chat c (\<lambda>r. a) provider prompt model mt t))) = [a]"
proof -
  from chat_posts_once [OF assms, of "\<lambda>r. a" prompt model mt t] obtain req where
    "snd (chat c (\<lambda>r. a) provider prompt model mt t) = [SessionOpened, Post req, SessionClosed]"
    by blast
  then show ?thesis by simp
qed

lemma supported_names:
  "''openai'' \<in> {''openai'', ''claude'', ''gemini''}"
  "''claude'' \<in> {''openai'', ''claude'', ''gemini''}"
  "''gemini'' \<in> {''openai'', ''claude'', ''gemini''}"
  by simp_all

lemma chat_constant:
  assumes "fst (init env) = Inr c" and "provider \<in> {''openai'', ''claude'', ''gemini''}"
  shows "fst (chat c (\<lambda>r. a) provider prompt model mt t) =
     (case a of
        Inl cls \<Rightarrow> Inl (LibraryError cls)
      | Inr resp \<Rightarrow>
          if resp_status resp \<noteq> 200 then
            (case resp_text resp of
               Inl cls \<Rightarrow> Inl (LibraryError cls)
             | Inr body \<Rightarrow> Inl (RuntimeError (provider @ '' API error: HTTP ''
                  @ str_int (resp_status resp) @ '' - '' @ body)))
          else
            (case resp_json resp of
               Inl cls \<Rightarrow> Inl (LibraryError cls)
             | Inr data \<Rightarrow> extract_response provider data))"
  by (rule chat_answered [OF assms constant_transport [OF assms]])

lemma str_int_500: "str_int 500 = ''500''"
  by (simp add: str_int_def str_nat.simps)

lemma extract_response_malformed_only:
  assumes "provider \<in> {''openai'', ''claude'', ''gemini''}"
    and "extract_response provider data = Inl (RuntimeError m)"
  shows "(\<exists>k. navigate data (map key_of (documented_path provider)) = Inl (KeyError k)) \<or>
         (\<exists>x. navigate data (map key_of (documented_path provider)) = Inl (IndexError x))"
proof (cases "navigate data (map key_of (documented_path provider))")
  case (Inl e)
  from navigate_errors [OF Inl] assms(2) Inl show ?thesis
    by (auto simp: extract_response_path [OF assms(1)])
next
  case (Inr v)
  with assms(2) show ?thesis
    by (simp add: extract_response_path [OF assms(1)])
qed

subsection \<open>Construction\<close>

text \<open>
  Claim C7. Constructing the client reads the environment variables \<open>OPENAI_API_KEY\<close>,
  \<open>ANTHROPIC_API_KEY\<close> and \<open>GOOGLE_API_KEY\<close>, each once. When a credential is absent
  or empty, construction fails with the \<open>ValueError\<close> "Missing API key for" followed by
  the name of the first provider, in the order openai, claude, gemini, whose credential
  is missing; when all three are present and not empty, construction succeeds.
\<close>

theorem init_validates_credentials:
  "snd (init env) = [''OPENAI_API_KEY'', ''ANTHROPIC_API_KEY'', ''GOOGLE_API_KEY''] \<and>
   (env ''OPENAI_API_KEY'' = None \<or> env ''OPENAI_API_KEY'' = Some '''' \<longrightarrow>
      fst (init env) = Inl (ValueError ''Missing API key for openai'')) \<and>
   ((\<exists>ko. env ''OPENAI_API_KEY'' = Some ko \<and> ko \<noteq> '''') \<and>
    (env ''ANTHROPIC_API_KEY'' = None \<or> env ''ANTHROPIC_API_KEY'' = Some '''') \<longrightarrow>
      fst (init env) = Inl (ValueError ''Missing API key for claude'')) \<and>
   ((\<exists>ko. env ''OPENAI_API_KEY'' = Some ko \<and> ko \<noteq> '''') \<and>
    (\<exists>ka. env ''ANTHROPIC_API_KEY'' = Some ka \<and> ka \<noteq> '''') \<and>
    (env ''GOOGLE_API_KEY'' = None \<or> env ''GOOGLE_API_KEY'' = Some '''') \<longrightarrow>
      fst (init env) = Inl (ValueError ''Missing API key for gemini'')) \<and>
   ((\<exists>ko. env ''OPENAI_API_KEY'' = Some ko \<and> ko \<noteq> '''') \<and>
    (\<exists>ka. env ''ANTHROPIC_API_KEY'' = Some ka \<and> ka \<noteq> '''') \<and>
    (\<exists>kg. env ''GOOGLE_API_KEY'' = Some kg \<and> kg \<noteq> '''') \<longrightarrow>
      (\<exists>c. fst (init env) = Inr c \<and> map fst (config c) = [''openai'', ''claude'', ''gemini'']))"
  by (auto simp: init_def getenv_def validate_config_def Let_def split: option.splits if_splits)

theorem init_validates_credentials_witness:
  "snd (init Map.empty) = [''OPENAI_API_KEY'', ''ANTHROPIC_API_KEY'', ''GOOGLE_API_KEY''] \<and>
   fst (init Map.empty) = Inl (ValueError ''Missing API key for openai'') \<and>
   fst (init [''OPENAI_API_KEY'' \<mapsto> ''sk-o'', ''ANTHROPIC_API_KEY'' \<mapsto> ''''])
     = Inl (ValueError ''Missing API key for claude'') \<and>
   fst (init [''OPENAI_API_KEY'' \<mapsto> ''sk-o'', ''ANTHROPIC_API_KEY'' \<mapsto> ''sk-a''])
     = Inl (ValueError ''Missing API key for gemini'') \<and>
   (\<exists>c. fst (init [''OPENAI_API_KEY'' \<mapsto> ''sk-o'', ''ANTHROPIC_API_KEY'' \<mapsto> ''sk-a'',
                   ''GOOGLE_API_KEY'' \<mapsto> ''sk-g'']) = Inr c
        \<and> map fst (config c) = [''openai'', ''claude'', ''gemini''])"
  using init_validates_credentials [of Map.empty]
    init_validates_credentials [of "[''OPENAI_API_KEY'' \<mapsto> ''sk-o'', ''ANTHROPIC_API_KEY'' \<mapsto> '''']"]
    init_validates_credentials [of "[''OPENAI_API_KEY'' \<mapsto> ''sk-o'', ''ANTHROPIC_API_KEY'' \<mapsto> ''sk-a'']"]
    init_validates_credentials [of "[''OPENAI_API_KEY'' \<mapsto> ''sk-o'', ''ANTHROPIC_API_KEY'' \<mapsto> ''sk-a'',
                   ''GOOGLE_API_KEY'' \<mapsto> ''sk-g'']"]
  by simp

subsection \<open>Unknown providers\<close>

text \<open>
  Claim C8. For a constructed client, every provider name outside openai, claude and
  gemini and every prompt, \<open>chat\<close> fails with the \<open>ValueError\<close> "Unknown provider:"
  followed by the name, and did nothing on the network: no session was opened and no
  request was issued, whatever the transport would have answered.
\<close>

theorem chat_unknown_provider:
  "fst (init env) = Inr c \<Longrightarrow> provider \<notin> {''openai'', ''claude'', ''gemini''} \<Longrightarrow>
   chat c post provider prompt model max_tokens temperature =
     (Inl (ValueError (''Unknown provider: '' @ provider)), [])"
  by (auto dest!: init_Inr simp: chat_def)

theorem chat_unknown_provider_witness:
  "\<exists>c. fst (init [''OPENAI_API_KEY'' \<mapsto> ''sk-o'', ''ANTHROPIC_API_KEY'' \<mapsto> ''sk-a'',
                   ''GOOGLE_API_KEY'' \<mapsto> ''sk-g'']) = Inr c \<and>
     ''unknown'' \<notin> {''openai'', ''claude'', ''gemini''} \<and>
     chat c (\<lambda>r. Inl ''ClientConnectionError'') ''unknown'' ''hi'' None 1000 (0.7 :: real) =
       (Inl (ValueError ''Unknown provider: unknown''), [])"
proof -
  obtain c where c: "fst (init [''OPENAI_API_KEY'' \<mapsto> ''sk-o'', ''ANTHROPIC_API_KEY'' \<mapsto> ''sk-a'',
                   ''GOOGLE_API_KEY'' \<mapsto> ''sk-g'']) = Inr c"
    by (simp add: init_def getenv_def validate_config_def)
  have u: "''unknown'' \<notin> {''openai'', ''claude'', ''gemini''}" by simp
  from chat_unknown_provider [OF c u, of "\<lambda>r. Inl ''ClientConnectionError''" "''hi''" None 1000 "0.7 :: real"] c u
  show ?thesis by auto
qed

subsection \<open>The outgoing request\<close>

text \<open>
  Claim C3. In every call of \<open>chat\<close> on a constructed client, the one request posted for
  openai goes to the configured endpoint, unmodified, with the headers \<open>Content-Type\<close> and
  \<open>Authorization\<close>, the latter "Bearer " followed by the openai credential; the request for
  claude goes to the configured endpoint, unmodified, with \<open>Content-Type\<close>, \<open>x-api-key\<close>
  set to the claude credential as it is, and \<open>anthropic-version\<close> set to 2023-06-01; the
  request for gemini has the header \<open>Content-Type\<close> and no other, and its URL is the
  endpoint followed by \<open>?key=\<close> and the gemini credential.
\<close>

theorem request_carries_credential:
  assumes "fst (init env) = Inr c"
    and "env ''OPENAI_API_KEY'' = Some ko"
    and "env ''ANTHROPIC_API_KEY'' = Some ka"
    and "env ''GOOGLE_API_KEY'' = Some kg"
  shows "map (\<lambda>r. (req_url r, req_headers r))
           (requests (snd (chat c post ''openai'' prompt model max_tokens temperature))) =
         [(''https://api.openai.com/v1/chat/completions'',
           [(''Content-Type'', PStr ''application/json''),
            (''Authorization'', PStr (''Bearer '' @ ko))])] \<and>
       map (\<lambda>r. (req_url r, req_headers r))
           (requests (snd (chat c post ''claude'' prompt model max_tokens temperature))) =
         [(''https://api.anthropic.com/v1/messages'',
           [(''Content-Type'', PStr ''application/json''),
            (''x-api-key'', PStr ka),
            (''anthropic-version'', PStr ''2023-06-01'')])] \<and>
       map (\<lambda>r. (req_url r, req_headers r))
           (requests (snd (chat c post ''gemini'' prompt model max_tokens temperature))) =
         [(''https://generativelanguage.googleapis.com/v1beta/models/gemini-1.5-pro:generateContent''
             @ ''?key='' @ kg,
           [(''Content-Type'', PStr ''application/json'')])]"
  by (simp add: chat_requests [OF assms])

theorem request_carries_credential_witness:
  "\<exists>c. fst (init [''OPENAI_API_KEY'' \<mapsto> ''sk-o'', ''ANTHROPIC_API_KEY'' \<mapsto> ''sk-a'',
                   ''GOOGLE_API_KEY'' \<mapsto> ''sk-g'']) = Inr c \<and>
     map (\<lambda>r. (req_url r, req_headers r))
           (requests (snd (chat c (\<lambda>r. Inl ''TimeoutError'') ''openai'' ''hi'' None 1000 (0.7 :: real)))) =
         [(''https://api.openai.com/v1/chat/completions'',
           [(''Content-Type'', PStr ''application/json''),
            (''Authorization'', PStr ''Bearer sk-o'')])] \<and>
     map (\<lambda>r. (req_url r, req_headers r))
           (requests (snd (chat c (\<lambda>r. Inl ''TimeoutError'') ''claude'' ''hi'' None 1000 (0.7 :: real)))) =
         [(''https://api.anthropic.com/v1/messages'',
           [(''Content-Type'', PStr ''application/json''),
            (''x-api-key'', PStr ''sk-a''),
            (''anthropic-version'', PStr ''2023-06-01'')])] \<and>
     map (\<lambda>r. (req_url r, req_headers r))
           (requests (snd (chat c (\<lambda>r. Inl ''TimeoutError'') ''gemini'' ''hi'' None 1000 (0.7 :: real)))) =
         [(''https://generativelanguage.googleapis.com/v1beta/models/gemini-1.5-pro:generateContent?key=sk-g'',
           [(''Content-Type'', PStr ''application/json'')])]"
proof -
  from init_example obtain c where
    c: "fst (init [''OPENAI_API_KEY'' \<mapsto> ''sk-o'', ''ANTHROPIC_API_KEY'' \<mapsto> ''sk-a'',
                   ''GOOGLE_API_KEY'' \<mapsto> ''sk-g'']) = Inr c"
    by blast
  have "map (\<lambda>r. (req_url r, req_headers r))
           (requests (snd (chat c (\<lambda>r. Inl ''TimeoutError'') ''openai'' ''hi'' None 1000 (0.7 :: real)))) =
         [(''https://api.openai.com/v1/chat/completions'',
           [(''Content-Type'', PStr ''application/json''),
            (''Authorization'', PStr ''Bearer sk-o'')])] \<and>
     map (\<lambda>r. (req_url r, req_headers r))
           (requests (snd (chat c (\<lambda>r. Inl ''TimeoutError'') ''claude'' ''hi'' None 1000 (0.7 :: real)))) =
         [(''https://api.anthropic.com/v1/messages'',
           [(''Content-Type'', PStr ''application/json''),
            (''x-api-key'', PStr ''sk-a''),
            (''anthropic-version'', PStr ''2023-06-01'')])] \<and>
     map (\<lambda>r. (req_url r, req_headers r))
           (requests (snd (chat c (\<lambda>r. Inl ''TimeoutError'') ''gemini'' ''hi'' None 1000 (0.7 :: real)))) =
         [(''https://generativelanguage.googleapis.com/v1beta/models/gemini-1.5-pro:generateContent?key=sk-g'',
           [(''Content-Type'', PStr ''application/json'')])]"
    using request_carries_credential [OF c, of "''sk-o''" "''sk-a''" "''sk-g''"
        "\<lambda>r. Inl ''TimeoutError''" "''hi''" None 1000 "0.7 :: real"]
    by simp
  with c have w: "fst (init [''OPENAI_API_KEY'' \<mapsto> ''sk-o'', ''ANTHROPIC_API_KEY'' \<mapsto> ''sk-a'',
                   ''GOOGLE_API_KEY'' \<mapsto> ''sk-g'']) = Inr c \<and> ?this"
    by (rule conjI)
  show ?thesis by (rule exI [of _ c]) (rule w)
qed

text \<open>
  Claim C10. The model override applies to a truthy \<open>model\<close> only: in every call of
  \<open>chat\<close> with the empty string for \<open>model\<close>, the payload posted for openai carries
  the model "gpt-4o" and the payload posted for claude the model
  "claude-3-5-sonnet-20241022", not the empty string.
\<close>

theorem empty_model_gives_default:
  assumes "fst (init env) = Inr c"
  shows "map req_json (requests (snd (chat c post ''openai'' prompt (Some '''') max_tokens temperature))) =
       [PDict
          [(''model'', PStr ''gpt-4o''),
           (''messages'', PList [PDict [(''role'', PStr ''user''), (''content'', PStr prompt)]]),
           (''max_tokens'', PInt max_tokens),
           (''temperature'', PFloat temperature)]] \<and>
     map req_json (requests (snd (chat c post ''claude'' prompt (Some '''') max_tokens temperature))) =
       [PDict
          [(''model'', PStr ''claude-3-5-sonnet-20241022''),
           (''max_tokens'', PInt max_tokens),
           (''messages'', PList [PDict [(''role'', PStr ''user''), (''content'', PStr prompt)]]),
           (''temperature'', PFloat temperature)]]"
proof -
  from init_Inr [OF assms] obtain ko ka kg where
    keys: "env ''OPENAI_API_KEY'' = Some ko" "env ''ANTHROPIC_API_KEY'' = Some ka"
      "env ''GOOGLE_API_KEY'' = Some kg"
    by blast
  show ?thesis
    by (simp add: chat_requests [OF assms keys] documented_payload_def)
qed

theorem empty_model_gives_default_witness:
  "\<exists>c. fst (init [''OPENAI_API_KEY'' \<mapsto> ''sk-o'', ''ANTHROPIC_API_KEY'' \<mapsto> ''sk-a'',
                   ''GOOGLE_API_KEY'' \<mapsto> ''sk-g'']) = Inr c \<and>
     map req_json (requests (snd (chat c (\<lambda>r. Inl ''TimeoutError'') ''openai'' ''hi'' (Some '''') 1000 (0.7 :: real)))) =
       [PDict
          [(''model'', PStr ''gpt-4o''),
           (''messages'', PList [PDict [(''role'', PStr ''user''), (''content'', PStr ''hi'')]]),
           (''max_tokens'', PInt 1000),
           (''temperature'', PFloat 0.7)]] \<and>
     map req_json (requests (snd (chat c (\<lambda>r. Inl ''TimeoutError'') ''claude'' ''hi'' (Some '''') 1000 (0.7 :: real)))) =
       [PDict
          [(''model'', PStr ''claude-3-5-sonnet-20241022''),
           (''max_tokens'', PInt 1000),
           (''messages'', PList [PDict [(''role'', PStr ''user''), (''content'', PStr ''hi'')]]),
           (''temperature'', PFloat 0.7)]]"
proof -
  from init_example obtain c where
    c: "fst (init [''OPENAI_API_KEY'' \<mapsto> ''sk-o'', ''ANTHROPIC_API_KEY'' \<mapsto> ''sk-a'',
                   ''GOOGLE_API_KEY'' \<mapsto> ''sk-g'']) = Inr c"
    by blast
  from c empty_model_gives_default [OF c, of "\<lambda>r. Inl ''TimeoutError''" "''hi''" 1000 "0.7 :: real"]
  have w: "fst (init [''OPENAI_API_KEY'' \<mapsto> ''sk-o'', ''ANTHROPIC_API_KEY'' \<mapsto> ''sk-a'',
                   ''GOOGLE_API_KEY'' \<mapsto> ''sk-g'']) = Inr c \<and>
     map req_json (requests (snd (chat c (\<lambda>r. Inl ''TimeoutError'') ''openai'' ''hi'' (Some '''') 1000 (0.7 :: real)))) =
       [PDict
          [(''model'', PStr ''gpt-4o''),
           (''messages'', PList [PDict [(''role'', PStr ''user''), (''content'', PStr ''hi'')]]),
           (''max_tokens'', PInt 1000),
           (''temperature'', PFloat 0.7)]] \<and>
     map req_json (requests (snd (chat c (\<lambda>r. Inl ''TimeoutError'') ''claude'' ''hi'' (Some '''') 1000 (0.7 :: real)))) =
       [PDict
          [(''model'', PStr ''claude-3-5-sonnet-20241022''),
           (''max_tokens'', PInt 1000),
           (''messages'', PList [PDict [(''role'', PStr ''user''), (''content'', PStr ''hi'')]]),
           (''temperature'', PFloat 0.7)]]"
    by (rule conjI)
  show ?thesis by (rule exI [of _ c]) (rule w)
qed

text \<open>
  The payload is not the documented one for every \<open>model\<close>: the specification writes
  \<open>model ?? default\<close>, under which an empty \<open>model\<close> is kept, and the code writes
  \<open>model or default\<close>, under which it is replaced. An openai call with the empty
  string for \<open>model\<close> tells the two apart.
\<close>

theorem payload_model_counterexample:
  "build_payload ''openai'' ''hi'' (Some '''') 1000 (0.7 :: real)
     \<noteq> Inr (documented_payload ''openai'' ''hi'' (Some '''') 1000 0.7)"
  by (simp add: build_payload_def documented_payload_def model_or_def)

text \<open>
  Claim C4, amended. For every supported provider, prompt, \<open>max_tokens\<close>, \<open>temperature\<close>
  and optional \<open>model\<close>, the payload built, and posted by \<open>chat\<close>, is the documented
  provider-native shape in which the default model stands in for a \<open>model\<close> that is
  absent or the empty string, and in which \<open>max_tokens\<close> and \<open>temperature\<close> stand as
  they were passed.
\<close>

theorem payload_shape:
  assumes "provider \<in> {''openai'', ''claude'', ''gemini''}"
  shows "build_payload provider prompt model max_tokens temperature =
       Inr (documented_payload provider prompt
              (if model = Some '''' then None else model) max_tokens temperature) \<and>
     (fst (init env) = Inr c \<longrightarrow>
        map req_json (requests (snd (chat c post provider prompt model max_tokens temperature))) =
          [documented_payload provider prompt
             (if model = Some '''' then None else model) max_tokens temperature])"
proof -
  have "map req_json (requests (snd (chat c post provider prompt model max_tokens temperature))) =
          [documented_payload provider prompt
             (if model = Some '''' then None else model) max_tokens temperature]"
    if c: "fst (init env) = Inr c"
  proof -
    from init_supported [OF c assms] obtain cfg where cfg: "map_of (config c) provider = Some cfg"
      by blast
    show ?thesis
      by (simp add: chat_known [OF cfg build_payload_documented [OF assms]])
  qed
  then show ?thesis
    by (simp add: build_payload_documented [OF assms])
qed

theorem payload_shape_witness:
  "''gemini'' \<in> {''openai'', ''claude'', ''gemini''} \<and>
   build_payload ''gemini'' ''hi'' (Some ''gemini-pro'') 64 (0.2 :: real) =
     Inr (PDict
          [(''contents'', PList [PDict [(''parts'', PList [PDict [(''text'', PStr ''hi'')]])]]),
           (''generationConfig'', PDict
              [(''temperature'', PFloat 0.2), (''maxOutputTokens'', PInt 64)])]) \<and>
   (\<exists>c. fst (init [''OPENAI_API_KEY'' \<mapsto> ''sk-o'', ''ANTHROPIC_API_KEY'' \<mapsto> ''sk-a'',
                   ''GOOGLE_API_KEY'' \<mapsto> ''sk-g'']) = Inr c \<and>
     map req_json (requests (snd (chat c (\<lambda>r. Inl ''TimeoutError'') ''openai'' ''hi''
        (Some ''gpt-4o-mini'') 64 (0.2 :: real)))) =
       [PDict
          [(''model'', PStr ''gpt-4o-mini''),
           (''messages'', PList [PDict [(''role'', PStr ''user''), (''content'', PStr ''hi'')]]),
           (''max_tokens'', PInt 64),
           (''temperature'', PFloat 0.2)]])"
proof -
  from init_example obtain c where
    c: "fst (init [''OPENAI_API_KEY'' \<mapsto> ''sk-o'', ''ANTHROPIC_API_KEY'' \<mapsto> ''sk-a'',
                   ''GOOGLE_API_KEY'' \<mapsto> ''sk-g'']) = Inr c"
    by blast
  have g: "''gemini'' \<in> {''openai'', ''claude'', ''gemini''}"
    and o: "''openai'' \<in> {''openai'', ''claude'', ''gemini''}"
    by simp_all
  have r: "map req_json (requests (snd (chat c (\<lambda>r. Inl ''TimeoutError'') ''openai'' ''hi''
        (Some ''gpt-4o-mini'') 64 (0.2 :: real)))) =
       [PDict
          [(''model'', PStr ''gpt-4o-mini''),
           (''messages'', PList [PDict [(''role'', PStr ''user''), (''content'', PStr ''hi'')]]),
           (''max_tokens'', PInt 64),
           (''temperature'', PFloat 0.2)]]"
    using payload_shape [OF o, of "''hi''" "Some ''gpt-4o-mini''" 64 "0.2 :: real" _ c "\<lambda>r. Inl ''TimeoutError''"] c
    by (simp add: documented_payload_def)
  have b: "build_payload ''gemini'' ''hi'' (Some ''gemini-pro'') 64 (0.2 :: real) =
     Inr (PDict
          [(''contents'', PList [PDict [(''parts'', PList [PDict [(''text'', PStr ''hi'')]])]]),
           (''generationConfig'', PDict
              [(''temperature'', PFloat 0.2), (''maxOutputTokens'', PInt 64)])])"
    using payload_shape [OF g, of "''hi''" "Some ''gemini-pro''" 64 "0.2 :: real"]
    by (simp add: documented_payload_def)
  have e: "\<exists>c. fst (init [''OPENAI_API_KEY'' \<mapsto> ''sk-o'', ''ANTHROPIC_API_KEY'' \<mapsto> ''sk-a'',
                   ''GOOGLE_API_KEY'' \<mapsto> ''sk-g'']) = Inr c \<and>
     map req_json (requests (snd (chat c (\<lambda>r. Inl ''TimeoutError'') ''openai'' ''hi''
        (Some ''gpt-4o-mini'') 64 (0.2 :: real)))) =
       [PDict
          [(''model'', PStr ''gpt-4o-mini''),
           (''messages'', PList [PDict [(''role'', PStr ''user''), (''content'', PStr ''hi'')]]),
           (''max_tokens'', PInt 64),
           (''temperature'', PFloat 0.2)]]"
    by (rule exI [of _ c]) (intro conjI c r)
  show ?thesis by (intro conjI g b e)
qed

subsection \<open>The reply\<close>

text \<open>
  Claim C5. For every supported provider, when the transport answers the request with
  status 200 and a JSON body in which the provider's field path leads to a value, \<open>chat\<close>
  returns that value: \<open>choices[0].message.content\<close> for openai, \<open>content[0].text\<close> for
  claude, \<open>candidates[0].content.parts[0].text\<close> for gemini.
\<close>

theorem chat_extracts_text:
  assumes "fst (init env) = Inr c"
    and "provider \<in> {''openai'', ''claude'', ''gemini''}"
    and "map post (requests (snd (chat c post provider prompt model max_tokens temperature))) = [Inr resp]"
    and "resp_status resp = 200"
    and "resp_json resp = Inr data"
    and "follow_path data (documented_path provider) = Found v"
  shows "fst (chat c post provider prompt model max_tokens temperature) = Inr v"
  using assms(4,5) navigate_found [OF assms(6)]
  by (simp add: chat_answered [OF assms(1-3)] extract_response_path [OF assms(2)])

theorem chat_extracts_text_witness:
  "\<exists>c. fst (init [''OPENAI_API_KEY'' \<mapsto> ''sk-o'', ''ANTHROPIC_API_KEY'' \<mapsto> ''sk-a'',
                   ''GOOGLE_API_KEY'' \<mapsto> ''sk-g'']) = Inr c \<and>
     fst (chat c
           (\<lambda>r. Inr \<lparr>resp_status = 200, resp_text = Inr ''{...}'',
                      resp_json = Inr (PDict [(''choices'',
                        PList [PDict [(''message'', PDict [(''content'', PStr ''hello'')])]])])\<rparr>)
           ''openai'' ''hi'' None 1000 (0.7 :: real)) = Inr (PStr ''hello'') \<and>
     fst (chat c
           (\<lambda>r. Inr \<lparr>resp_status = 200, resp_text = Inr ''{...}'',
                      resp_json = Inr (PDict [(''content'', PList [PDict [(''text'', PStr ''hi there'')]])])\<rparr>)
           ''claude'' ''hi'' None 1000 (0.7 :: real)) = Inr (PStr ''hi there'') \<and>
     fst (chat c
           (\<lambda>r. Inr \<lparr>resp_status = 200, resp_text = Inr ''{...}'',
                      resp_json = Inr (PDict [(''candidates'',
                        PList [PDict [(''content'',
                          PDict [(''parts'', PList [PDict [(''text'', PStr ''yo'')]])])]])])\<rparr>)
           ''gemini'' ''hi'' None 1000 (0.7 :: real)) = Inr (PStr ''yo'')"
proof -
  from init_example obtain c where
    c: "fst (init [''OPENAI_API_KEY'' \<mapsto> ''sk-o'', ''ANTHROPIC_API_KEY'' \<mapsto> ''sk-a'',
                   ''GOOGLE_API_KEY'' \<mapsto> ''sk-g'']) = Inr c"
    by blast
  have o: "fst (chat c
           (\<lambda>r. Inr \<lparr>resp_status = 200, resp_text = Inr ''{...}'',
                      resp_json = Inr (PDict [(''choices'',
                        PList [PDict [(''message'', PDict [(''content'', PStr ''hello'')])]])])\<rparr>)
           ''openai'' ''hi'' None 1000 (0.7 :: real)) = Inr (PStr ''hello'')"
    by (rule chat_extracts_text [OF c supported_names(1) constant_transport [OF c supported_names(1)]])
      (simp, simp, simp add: documented_path_def)
  have a: "fst (chat c
           (\<lambda>r. Inr \<lparr>resp_status = 200, resp_text = Inr ''{...}'',
                      resp_json = Inr (PDict [(''content'', PList [PDict [(''text'', PStr ''hi there'')]])])\<rparr>)
           ''claude'' ''hi'' None 1000 (0.7 :: real)) = Inr (PStr ''hi there'')"
    by (rule chat_extracts_text [OF c supported_names(2) constant_transport [OF c supported_names(2)]])
      (simp, simp, simp add: documented_path_def)
  have g: "fst (chat c
           (\<lambda>r. Inr \<lparr>resp_status = 200, resp_text = Inr ''{...}'',
                      resp_json = Inr (PDict [(''candidates'',
                        PList [PDict [(''content'',
                          PDict [(''parts'', PList [PDict [(''text'', PStr ''yo'')]])])]])])\<rparr>)
           ''gemini'' ''hi'' None 1000 (0.7 :: real)) = Inr (PStr ''yo'')"
    by (rule chat_extracts_text [OF c supported_names(3) constant_transport [OF c supported_names(3)]])
      (simp, simp, simp add: documented_path_def)
  show ?thesis
    by (rule exI [of _ c]) (intro conjI c o a g)
qed

text \<open>
  Claim C6. For every supported provider, when the transport answers with status 200 and a
  JSON body in which a field of the provider's path is missing or an index of it is out of
  range, \<open>chat\<close> fails with the \<open>RuntimeError\<close> "Invalid", the provider, "response
  format:" and the lookup failure: the missing key between apostrophes, or "list index out
  of range". The empty object is such a body for every provider: the first field of the path
  is missing.
\<close>

theorem chat_malformed_response:
  assumes "fst (init env) = Inr c"
    and "provider \<in> {''openai'', ''claude'', ''gemini''}"
    and "map post (requests (snd (chat c post provider prompt model max_tokens temperature))) = [Inr resp]"
    and "resp_status resp = 200"
    and "resp_json resp = Inr data"
  shows "(follow_path data (documented_path provider) = Missing st \<longrightarrow>
          fst (chat c post provider prompt model max_tokens temperature) =
            Inl (RuntimeError (''Invalid '' @ provider @ '' response format: ''
                   @ lookup_failure_text st))) \<and>
         (data = PDict [] \<longrightarrow>
          follow_path data (documented_path provider) = Missing (hd (documented_path provider)) \<and>
          fst (chat c post provider prompt model max_tokens temperature) =
            Inl (RuntimeError (''Invalid '' @ provider @ '' response format: ''
                   @ lookup_failure_text (hd (documented_path provider)))))"
proof -
  have m: "fst (chat c post provider prompt model max_tokens temperature) =
            Inl (RuntimeError (''Invalid '' @ provider @ '' response format: ''
                   @ lookup_failure_text st))"
    if "follow_path data (documented_path provider) = Missing st" for st
    using assms(4,5) navigate_missing [OF that]
    by (cases st)
      (simp_all add: chat_answered [OF assms(1-3)] extract_response_path [OF assms(2)])
  have e: "follow_path (PDict []) (documented_path provider) = Missing (hd (documented_path provider))"
    using assms(2) by (auto simp: documented_path_def)
  from m e show ?thesis by auto
qed

theorem chat_malformed_response_witness:
  "\<exists>c. fst (init [''OPENAI_API_KEY'' \<mapsto> ''sk-o'', ''ANTHROPIC_API_KEY'' \<mapsto> ''sk-a'',
                   ''GOOGLE_API_KEY'' \<mapsto> ''sk-g'']) = Inr c \<and>
     fst (chat c (\<lambda>r. Inr \<lparr>resp_status = 200, resp_text = Inr ''{}'', resp_json = Inr (PDict [])\<rparr>)
            ''openai'' ''hi'' None 1000 (0.7 :: real)) =
       Inl (RuntimeError (''Invalid openai response format: '' @ [CHR 0x27] @ ''choices'' @ [CHR 0x27])) \<and>
     fst (chat c (\<lambda>r. Inr \<lparr>resp_status = 200, resp_text = Inr ''{}'', resp_json = Inr (PDict [])\<rparr>)
            ''claude'' ''hi'' None 1000 (0.7 :: real)) =
       Inl (RuntimeError (''Invalid claude response format: '' @ [CHR 0x27] @ ''content'' @ [CHR 0x27])) \<and>
     fst (chat c (\<lambda>r. Inr \<lparr>resp_status = 200, resp_text = Inr ''{}'', resp_json = Inr (PDict [])\<rparr>)
            ''gemini'' ''hi'' None 1000 (0.7 :: real)) =
       Inl (RuntimeError (''Invalid gemini response format: '' @ [CHR 0x27] @ ''candidates'' @ [CHR 0x27])) \<and>
     follow_path (PDict [(''choices'', PList [])] :: real pyval) (documented_path ''openai'')
       = Missing (Index 0) \<and>
     fst (chat c (\<lambda>r. Inr \<lparr>resp_status = 200, resp_text = Inr ''{...}'',
                           resp_json = Inr (PDict [(''choices'', PList [])])\<rparr>)
            ''openai'' ''hi'' None 1000 (0.7 :: real)) =
       Inl (RuntimeError ''Invalid openai response format: list index out of range'')"
proof -
  let ?E = "\<lparr>resp_status = 200, resp_text = Inr ''{}'', resp_json = Inr (PDict [])\<rparr> :: real response"
  let ?L = "\<lparr>resp_status = 200, resp_text = Inr ''{...}'',
             resp_json = Inr (PDict [(''choices'', PList [])])\<rparr> :: real response"
  from init_example obtain c where
    c: "fst (init [''OPENAI_API_KEY'' \<mapsto> ''sk-o'', ''ANTHROPIC_API_KEY'' \<mapsto> ''sk-a'',
                   ''GOOGLE_API_KEY'' \<mapsto> ''sk-g'']) = Inr c"
    by blast
  have s: "resp_status ?E = 200" and j: "resp_json ?E = Inr (PDict [])"
    and s': "resp_status ?L = 200" and j': "resp_json ?L = Inr (PDict [(''choices'', PList [])])"
    by simp_all
  have o: "fst (chat c (\<lambda>r. Inr ?E) ''openai'' ''hi'' None 1000 (0.7 :: real)) =
       Inl (RuntimeError (''Invalid openai response format: '' @ [CHR 0x27] @ ''choices'' @ [CHR 0x27]))"
    using chat_malformed_response
      [OF c supported_names(1) constant_transport [OF c supported_names(1)] s j]
    by (simp add: documented_path_def)
  have a: "fst (chat c (\<lambda>r. Inr ?E) ''claude'' ''hi'' None 1000 (0.7 :: real)) =
       Inl (RuntimeError (''Invalid claude response format: '' @ [CHR 0x27] @ ''content'' @ [CHR 0x27]))"
    using chat_malformed_response
      [OF c supported_names(2) constant_transport [OF c supported_names(2)] s j]
    by (simp add: documented_path_def)
  have g: "fst (chat c (\<lambda>r. Inr ?E) ''gemini'' ''hi'' None 1000 (0.7 :: real)) =
       Inl (RuntimeError (''Invalid gemini response format: '' @ [CHR 0x27] @ ''candidates'' @ [CHR 0x27]))"
    using chat_malformed_response
      [OF c supported_names(3) constant_transport [OF c supported_names(3)] s j]
    by (simp add: documented_path_def)
  have f: "follow_path (PDict [(''choices'', PList [])] :: real pyval) (documented_path ''openai'')
       = Missing (Index 0)"
    by (simp add: documented_path_def)
  have l: "fst (chat c (\<lambda>r. Inr ?L) ''openai'' ''hi'' None 1000 (0.7 :: real)) =
       Inl (RuntimeError ''Invalid openai response format: list index out of range'')"
    using chat_malformed_response
      [OF c supported_names(1) constant_transport [OF c supported_names(1)] s' j', of "Index 0"] f
    by simp
  show ?thesis
    by (rule exI [of _ c]) (intro conjI c o a g f l)
qed

subsection \<open>Values of the wrong type\<close>

text \<open>
  A value of the wrong type on the path does not always end in a type error. Where the
  path asks for the first element of \<open>choices\<close> and \<open>choices\<close> is an object, the
  subscript \<open>[0]\<close> is a lookup of the key 0, which the object does not hold: a
  \<open>KeyError\<close>, which the handler turns into the error of a malformed response.
\<close>

theorem wrong_type_counterexample:
  "\<exists>c. fst (init [''OPENAI_API_KEY'' \<mapsto> ''sk-o'', ''ANTHROPIC_API_KEY'' \<mapsto> ''sk-a'',
                   ''GOOGLE_API_KEY'' \<mapsto> ''sk-g'']) = Inr c \<and>
     fst (chat c (\<lambda>r. Inr \<lparr>resp_status = 200, resp_text = Inr ''{...}'',
                           resp_json = Inr (PDict [(''choices'', PDict [])])\<rparr>)
            ''openai'' ''hi'' None 1000 (0.7 :: real)) =
       Inl (RuntimeError ''Invalid openai response format: 0'') \<and>
     error_kind_of (RuntimeError ''Invalid openai response format: 0'')
       = Some MalformedResponseError"
proof -
  from init_example obtain c where
    c: "fst (init [''OPENAI_API_KEY'' \<mapsto> ''sk-o'', ''ANTHROPIC_API_KEY'' \<mapsto> ''sk-a'',
                   ''GOOGLE_API_KEY'' \<mapsto> ''sk-g'']) = Inr c"
    by blast
  have r: "fst (chat c (\<lambda>r. Inr \<lparr>resp_status = 200, resp_text = Inr ''{...}'',
                           resp_json = Inr (PDict [(''choices'', PDict [])])\<rparr>)
            ''openai'' ''hi'' None 1000 (0.7 :: real)) =
       Inl (RuntimeError ''Invalid openai response format: 0'')"
    by (simp add: chat_constant [OF c supported_names(1)] extract_response_def str_int_def
        str_nat.simps)
  have k: "error_kind_of (RuntimeError ''Invalid openai response format: 0'')
       = Some MalformedResponseError"
    by (simp add: starts_with_def)
  show ?thesis
    by (rule exI [of _ c]) (intro conjI c r k)
qed

text \<open>
  Claim C9, amended. The extraction step turns only a \<open>KeyError\<close> and an \<open>IndexError\<close>
  into the \<open>RuntimeError\<close> of a malformed response. When a status-200 body holds, at
  some step of the provider's path, a value that is neither the object nor the array the
  step asks for, then: if the value is an object (standing where an array is asked for),
  the lookup of the index raises \<open>KeyError\<close> and \<open>chat\<close> fails with the error of a
  malformed response; if it is a string too short for the index, likewise through
  \<open>IndexError\<close>; in every other case (\<open>None\<close>, a boolean, a number, an array asked for a
  field, a string asked for a field or long enough for the index) the \<open>TypeError\<close> is not
  caught and \<open>chat\<close> fails with it, an error of none of the four documented kinds.
\<close>

theorem wrong_type_in_response:
  assumes "fst (init env) = Inr c"
    and "provider \<in> {''openai'', ''claude'', ''gemini''}"
    and "map post (requests (snd (chat c post provider prompt model max_tokens temperature))) = [Inr resp]"
    and "resp_status resp = 200"
    and "resp_json resp = Inr data"
  shows "(follow_path data (documented_path provider) = WrongType w st \<longrightarrow>
          fst (chat c post provider prompt model max_tokens temperature) =
            (case w of
               PDict d \<Rightarrow>
                 Inl (RuntimeError (''Invalid '' @ provider @ '' response format: ''
                        @ str_key (key_of st)))
             | PStr s \<Rightarrow>
                 (case st of
                    Index n \<Rightarrow>
                      if n < length s then Inl TypeError
                      else Inl (RuntimeError (''Invalid '' @ provider @ '' response format: ''
                                  @ ''string index out of range''))
                  | Field k \<Rightarrow> Inl TypeError)
             | _ \<Rightarrow> Inl TypeError)) \<and>
         error_kind_of TypeError = None \<and>
         (\<forall>m. fst (chat c post provider prompt model max_tokens temperature) = Inl (RuntimeError m) \<longrightarrow>
            (\<exists>k. navigate data (map key_of (documented_path provider)) = Inl (KeyError k)) \<or>
            (\<exists>x. navigate data (map key_of (documented_path provider)) = Inl (IndexError x)))"
proof -
  have res: "fst (chat c post provider prompt model max_tokens temperature) =
      extract_response provider data"
    using assms(4,5) by (simp add: chat_answered [OF assms(1-3)])
  have "fst (chat c post provider prompt model max_tokens temperature) =
            (case w of
               PDict d \<Rightarrow>
                 Inl (RuntimeError (''Invalid '' @ provider @ '' response format: ''
                        @ str_key (key_of st)))
             | PStr s \<Rightarrow>
                 (case st of
                    Index n \<Rightarrow>
                      if n < length s then Inl TypeError
                      else Inl (RuntimeError (''Invalid '' @ provider @ '' response format: ''
                                  @ ''string index out of range''))
                  | Field k \<Rightarrow> Inl TypeError)
             | _ \<Rightarrow> Inl TypeError)"
    if "follow_path data (documented_path provider) = WrongType w st"
    using navigate_wrong [OF that documented_path_shape]
    by (cases w; cases st) (simp_all add: res extract_response_path [OF assms(2)])
  moreover have "error_kind_of TypeError = None" by simp
  moreover have "(\<exists>k. navigate data (map key_of (documented_path provider)) = Inl (KeyError k)) \<or>
            (\<exists>x. navigate data (map key_of (documented_path provider)) = Inl (IndexError x))"
    if "fst (chat c post provider prompt model max_tokens temperature) = Inl (RuntimeError m)" for m
    using that extract_response_malformed_only [OF assms(2), of data m] by (simp add: res)
  ultimately show ?thesis by blast
qed

theorem wrong_type_in_response_witness:
  "\<exists>c. fst (init [''OPENAI_API_KEY'' \<mapsto> ''sk-o'', ''ANTHROPIC_API_KEY'' \<mapsto> ''sk-a'',
                   ''GOOGLE_API_KEY'' \<mapsto> ''sk-g'']) = Inr c \<and>
     follow_path (PDict [(''choices'', PList [PNone])] :: real pyval) (documented_path ''openai'')
       = WrongType PNone (Field ''message'') \<and>
     fst (chat c (\<lambda>r. Inr \<lparr>resp_status = 200, resp_text = Inr ''{...}'',
                           resp_json = Inr (PDict [(''choices'', PList [PNone])])\<rparr>)
            ''openai'' ''hi'' None 1000 (0.7 :: real)) = Inl TypeError \<and>
     follow_path (PDict [(''content'', PStr ''text'')] :: real pyval) (documented_path ''claude'')
       = WrongType (PStr ''text'') (Index 0) \<and>
     fst (chat c (\<lambda>r. Inr \<lparr>resp_status = 200, resp_text = Inr ''{...}'',
                           resp_json = Inr (PDict [(''content'', PStr ''text'')])\<rparr>)
            ''claude'' ''hi'' None 1000 (0.7 :: real)) = Inl TypeError \<and>
     fst (chat c (\<lambda>r. Inr \<lparr>resp_status = 200, resp_text = Inr ''{...}'',
                           resp_json = Inr (PDict [(''candidates'', PDict [])])\<rparr>)
            ''gemini'' ''hi'' None 1000 (0.7 :: real)) =
       Inl (RuntimeError ''Invalid gemini response format: 0'') \<and>
     navigate (PDict [(''candidates'', PDict [])] :: real pyval)
        (map key_of (documented_path ''gemini'')) = Inl (KeyError (KInt 0))"
proof -
  let ?N = "\<lparr>resp_status = 200, resp_text = Inr ''{...}'',
             resp_json = Inr (PDict [(''choices'', PList [PNone])])\<rparr> :: real response"
  let ?S = "\<lparr>resp_status = 200, resp_text = Inr ''{...}'',
             resp_json = Inr (PDict [(''content'', PStr ''text'')])\<rparr> :: real response"
  let ?D = "\<lparr>resp_status = 200, resp_text = Inr ''{...}'',
             resp_json = Inr (PDict [(''candidates'', PDict [])])\<rparr> :: real response"
  from init_example obtain c where
    c: "fst (init [''OPENAI_API_KEY'' \<mapsto> ''sk-o'', ''ANTHROPIC_API_KEY'' \<mapsto> ''sk-a'',
                   ''GOOGLE_API_KEY'' \<mapsto> ''sk-g'']) = Inr c"
    by blast
  have st: "resp_status ?N = 200" "resp_status ?S = 200" "resp_status ?D = 200"
    and jn: "resp_json ?N = Inr (PDict [(''choices'', PList [PNone])])"
    and js: "resp_json ?S = Inr (PDict [(''content'', PStr ''text'')])"
    and jd: "resp_json ?D = Inr (PDict [(''candidates'', PDict [])])"
    by simp_all
  have fn: "follow_path (PDict [(''choices'', PList [PNone])] :: real pyval) (documented_path ''openai'')
       = WrongType PNone (Field ''message'')"
    by (simp add: documented_path_def)
  have fs: "follow_path (PDict [(''content'', PStr ''text'')] :: real pyval) (documented_path ''claude'')
       = WrongType (PStr ''text'') (Index 0)"
    by (simp add: documented_path_def)
  have fd: "follow_path (PDict [(''candidates'', PDict [])] :: real pyval) (documented_path ''gemini'')
       = WrongType (PDict []) (Index 0)"
    by (simp add: documented_path_def)
  have n: "fst (chat c (\<lambda>r. Inr ?N) ''openai'' ''hi'' None 1000 (0.7 :: real)) = Inl TypeError"
    using wrong_type_in_response
      [OF c supported_names(1) constant_transport [OF c supported_names(1)] st(1) jn,
        of PNone "Field ''message''"] fn
    by simp
  have s: "fst (chat c (\<lambda>r. Inr ?S) ''claude'' ''hi'' None 1000 (0.7 :: real)) = Inl TypeError"
    using wrong_type_in_response
      [OF c supported_names(2) constant_transport [OF c supported_names(2)] st(2) js,
        of "PStr ''text''" "Index 0"] fs
    by simp
  note d0 = wrong_type_in_response
      [OF c supported_names(3) constant_transport [OF c supported_names(3)] st(3) jd,
        of "PDict []" "Index 0"]
  have d: "fst (chat c (\<lambda>r. Inr ?D) ''gemini'' ''hi'' None 1000 (0.7 :: real)) =
       Inl (RuntimeError ''Invalid gemini response format: 0'')"
    using d0 fd by (simp add: str_int_def str_nat.simps)
  have nd: "navigate (PDict [(''candidates'', PDict [])] :: real pyval)
        (map key_of (documented_path ''gemini'')) = Inl (KeyError (KInt 0))"
    using d0 d by (simp add: documented_path_def)
  show ?thesis
    by (rule exI [of _ c]) (intro conjI c fn n fs s d nd)
qed

subsection \<open>Failures of the transport\<close>

text \<open>
  Claim C2. A failure of the transport (a timeout, a failed connection, a body that does
  not decode as JSON) should make \<open>chat\<close> fail with an \<open>ApiError\<close>, as a status other
  than 200 does; the docstring of \<open>chat\<close> says the same ("RuntimeError: If API request
  fails"). The code does not do that: \<open>chat\<close> has no handler around \<open>session.post\<close>,
  \<open>resp.text()\<close> or \<open>resp.json()\<close>. At a timeout, and at a status-200 body that does not
  decode, \<open>chat\<close> fails with the exception the library raised, which is not a
  \<open>RuntimeError\<close>, does not carry the provider's name and is of none of the four kinds.
\<close>

theorem transport_failure_not_wrapped:
  "\<exists>c. fst (init [''OPENAI_API_KEY'' \<mapsto> ''sk-o'', ''ANTHROPIC_API_KEY'' \<mapsto> ''sk-a'',
                   ''GOOGLE_API_KEY'' \<mapsto> ''sk-g'']) = Inr c \<and>
     fst (chat c (\<lambda>r. Inl ''TimeoutError'') ''openai'' ''hi'' None 1000 (0.7 :: real)) =
       Inl (LibraryError ''TimeoutError'') \<and>
     fst (chat c (\<lambda>r. Inr \<lparr>resp_status = 200, resp_text = Inr ''<html>'',
                           resp_json = Inl ''ContentTypeError''\<rparr>)
            ''openai'' ''hi'' None 1000 (0.7 :: real)) =
       Inl (LibraryError ''ContentTypeError'') \<and>
     error_kind_of (LibraryError ''TimeoutError'') = None \<and>
     error_kind_of (LibraryError ''ContentTypeError'') = None"
proof -
  from init_example obtain c where
    c: "fst (init [''OPENAI_API_KEY'' \<mapsto> ''sk-o'', ''ANTHROPIC_API_KEY'' \<mapsto> ''sk-a'',
                   ''GOOGLE_API_KEY'' \<mapsto> ''sk-g'']) = Inr c"
    by blast
  have t: "fst (chat c (\<lambda>r. Inl ''TimeoutError'') ''openai'' ''hi'' None 1000 (0.7 :: real)) =
       Inl (LibraryError ''TimeoutError'')"
    by (simp add: chat_constant [OF c supported_names(1)])
  have d: "fst (chat c (\<lambda>r. Inr \<lparr>resp_status = 200, resp_text = Inr ''<html>'',
                           resp_json = Inl ''ContentTypeError''\<rparr>)
            ''openai'' ''hi'' None 1000 (0.7 :: real)) =
       Inl (LibraryError ''ContentTypeError'')"
    by (simp add: chat_constant [OF c supported_names(1)])
  have k: "error_kind_of (LibraryError ''TimeoutError'') = None"
    "error_kind_of (LibraryError ''ContentTypeError'') = None"
    by simp_all
  show ?thesis
    by (rule exI [of _ c]) (intro conjI c t d k)
qed

text \<open>
  What a call for a supported provider does with each outcome of the transport: one
  request is posted and none is repeated; a status other than 200 whose body text is read
  gives the \<open>RuntimeError\<close> made of the provider's name, "API error: HTTP", the status
  code and the body text, and an error of the kind \<open>ApiError\<close> arises in that case only;
  any exception of the library is passed on.
\<close>

lemma chat_outcomes:
  assumes "fst (init env) = Inr c"
    and "provider \<in> {''openai'', ''claude'', ''gemini''}"
  shows "\<exists>req.
     snd (chat c post provider prompt model max_tokens temperature) =
       [SessionOpened, Post req, SessionClosed] \<and>
     (\<forall>resp body. post req = Inr resp \<and> resp_status resp \<noteq> 200 \<and> resp_text resp = Inr body \<longrightarrow>
        fst (chat c post provider prompt model max_tokens temperature) =
          Inl (RuntimeError (provider @ '' API error: HTTP '' @ str_int (resp_status resp)
                 @ '' - '' @ body))) \<and>
     (\<forall>cls. post req = Inl cls \<longrightarrow>
        fst (chat c post provider prompt model max_tokens temperature) = Inl (LibraryError cls)) \<and>
     (\<forall>resp cls. post req = Inr resp \<and> resp_status resp \<noteq> 200 \<and> resp_text resp = Inl cls \<longrightarrow>
        fst (chat c post provider prompt model max_tokens temperature) = Inl (LibraryError cls)) \<and>
     (\<forall>resp cls. post req = Inr resp \<and> resp_status resp = 200 \<and> resp_json resp = Inl cls \<longrightarrow>
        fst (chat c post provider prompt model max_tokens temperature) = Inl (LibraryError cls)) \<and>
     (\<forall>e. fst (chat c post provider prompt model max_tokens temperature) = Inl e \<longrightarrow>
        (error_kind_of e = Some ApiError) =
        (\<exists>resp body. post req = Inr resp \<and> resp_status resp \<noteq> 200 \<and> resp_text resp = Inr body))"
proof -
  from chat_posts_once [OF assms, of post prompt model max_tokens temperature] obtain req where
    ev: "snd (chat c post provider prompt model max_tokens temperature) =
       [SessionOpened, Post req, SessionClosed]"
    by blast
  then have m: "map post (requests (snd (chat c post provider prompt model max_tokens temperature)))
      = [post req]"
    by simp
  note a = chat_answered [OF assms m]
  have k: "(error_kind_of e = Some ApiError) =
        (\<exists>resp body. post req = Inr resp \<and> resp_status resp \<noteq> 200 \<and> resp_text resp = Inr body)"
    if "fst (chat c post provider prompt model max_tokens temperature) = Inl e" for e
    unfolding chat_error_kind [OF assms m that]
    by (auto split: sum.splits exn.splits)
  have "snd (chat c post provider prompt model max_tokens temperature) =
       [SessionOpened, Post req, SessionClosed] \<and>
     (\<forall>resp body. post req = Inr resp \<and> resp_status resp \<noteq> 200 \<and> resp_text resp = Inr body \<longrightarrow>
        fst (chat c post provider prompt model max_tokens temperature) =
          Inl (RuntimeError (provider @ '' API error: HTTP '' @ str_int (resp_status resp)
                 @ '' - '' @ body))) \<and>
     (\<forall>cls. post req = Inl cls \<longrightarrow>
        fst (chat c post provider prompt model max_tokens temperature) = Inl (LibraryError cls)) \<and>
     (\<forall>resp cls. post req = Inr resp \<and> resp_status resp \<noteq> 200 \<and> resp_text resp = Inl cls \<longrightarrow>
        fst (chat c post provider prompt model max_tokens temperature) = Inl (LibraryError cls)) \<and>
     (\<forall>resp cls. post req = Inr resp \<and> resp_status resp = 200 \<and> resp_json resp = Inl cls \<longrightarrow>
        fst (chat c post provider prompt model max_tokens temperature) = Inl (LibraryError cls)) \<and>
     (\<forall>e. fst (chat c post provider prompt model max_tokens temperature) = Inl e \<longrightarrow>
        (error_kind_of e = Some ApiError) =
        (\<exists>resp body. post req = Inr resp \<and> resp_status resp \<noteq> 200 \<and> resp_text resp = Inr body))"
    using k by (simp add: ev a)
  then show ?thesis by (rule exI [of _ req])
qed

lemma chat_outcomes_example:
  "\<exists>c. fst (init [''OPENAI_API_KEY'' \<mapsto> ''sk-o'', ''ANTHROPIC_API_KEY'' \<mapsto> ''sk-a'',
                   ''GOOGLE_API_KEY'' \<mapsto> ''sk-g'']) = Inr c \<and>
     fst (chat c (\<lambda>r. Inr \<lparr>resp_status = 500, resp_text = Inr ''server error'',
                           resp_json = Inl ''ContentTypeError''\<rparr>)
            ''openai'' ''hi'' None 1000 (0.7 :: real)) =
       Inl (RuntimeError ''openai API error: HTTP 500 - server error'') \<and>
     length (requests (snd (chat c (\<lambda>r. Inr \<lparr>resp_status = 500, resp_text = Inr ''server error'',
                           resp_json = Inl ''ContentTypeError''\<rparr>)
            ''openai'' ''hi'' None 1000 (0.7 :: real)))) = 1 \<and>
     error_kind_of (RuntimeError ''openai API error: HTTP 500 - server error'') = Some ApiError \<and>
     fst (chat c (\<lambda>r. Inl ''ClientConnectorError'') ''gemini'' ''hi'' None 1000 (0.7 :: real)) =
       Inl (LibraryError ''ClientConnectorError'') \<and>
     fst (chat c (\<lambda>r. Inr \<lparr>resp_status = 502, resp_text = Inl ''ClientPayloadError'',
                           resp_json = Inl ''ClientPayloadError''\<rparr>)
            ''claude'' ''hi'' None 1000 (0.7 :: real)) =
       Inl (LibraryError ''ClientPayloadError'') \<and>
     fst (chat c (\<lambda>r. Inr \<lparr>resp_status = 200, resp_text = Inr ''<html>'',
                           resp_json = Inl ''ContentTypeError''\<rparr>)
            ''claude'' ''hi'' None 1000 (0.7 :: real)) =
       Inl (LibraryError ''ContentTypeError'')"
proof -
  from init_example obtain c where
    c: "fst (init [''OPENAI_API_KEY'' \<mapsto> ''sk-o'', ''ANTHROPIC_API_KEY'' \<mapsto> ''sk-a'',
                   ''GOOGLE_API_KEY'' \<mapsto> ''sk-g'']) = Inr c"
    by blast
  let ?T = "\<lambda>r :: real request. (Inr \<lparr>resp_status = 500, resp_text = Inr ''server error'',
                           resp_json = Inl ''ContentTypeError''\<rparr> :: string + real response)"
  have r: "fst (chat c ?T ''openai'' ''hi'' None 1000 (0.7 :: real)) =
       Inl (RuntimeError ''openai API error: HTTP 500 - server error'')"
    using chat_outcomes [OF c supported_names(1), of ?T "''hi''" None 1000 "0.7 :: real"]
    by (auto simp: str_int_500)
  have n: "length (requests (snd (chat c ?T ''openai'' ''hi'' None 1000 (0.7 :: real)))) = 1"
    using chat_outcomes [OF c supported_names(1), of ?T "''hi''" None 1000 "0.7 :: real"]
    by auto
  have k: "error_kind_of (RuntimeError ''openai API error: HTTP 500 - server error'') = Some ApiError"
    using chat_outcomes [OF c supported_names(1), of ?T "''hi''" None 1000 "0.7 :: real"] r
    by auto
  have f: "fst (chat c (\<lambda>r. Inl ''ClientConnectorError'') ''gemini'' ''hi'' None 1000 (0.7 :: real)) =
       Inl (LibraryError ''ClientConnectorError'')"
    using chat_outcomes [OF c supported_names(3),
        of "\<lambda>r. Inl ''ClientConnectorError''" "''hi''" None 1000 "0.7 :: real"]
    by auto
  let ?P = "\<lambda>r :: real request. (Inr \<lparr>resp_status = 502, resp_text = Inl ''ClientPayloadError'',
                           resp_json = Inl ''ClientPayloadError''\<rparr> :: string + real response)"
  let ?J = "\<lambda>r :: real request. (Inr \<lparr>resp_status = 200, resp_text = Inr ''<html>'',
                           resp_json = Inl ''ContentTypeError''\<rparr> :: string + real response)"
  have p: "fst (chat c ?P ''claude'' ''hi'' None 1000 (0.7 :: real)) =
       Inl (LibraryError ''ClientPayloadError'')"
    using chat_outcomes [OF c supported_names(2), of ?P "''hi''" None 1000 "0.7 :: real"]
    by auto
  have j: "fst (chat c ?J ''claude'' ''hi'' None 1000 (0.7 :: real)) =
       Inl (LibraryError ''ContentTypeError'')"
    using chat_outcomes [OF c supported_names(2), of ?J "''hi''" None 1000 "0.7 :: real"]
    by auto
  show ?thesis
    by (rule exI [of _ c]) (intro conjI c r n k f p j)
qed

subsection \<open>The four kinds of error\<close>




end
